theory Spec2Isabelle
  imports Complex_Main
begin

section \<open>Data model\<close>

text \<open>
  The two scripts (BlendAI_Smart.py, BlendAI_Ubuntu.py) compute an axis-aligned bounding
  box of mesh vertices and derive a reference-plane placement and a camera placement
  from it. The arithmetic is written inline in three methods:
  \<^item> \<open>SmartBlendAI._position_reference_plane\<close> (BlendAI_Smart.py, 361-398),
  \<^item> \<open>SmartBlendAI.render_smart_preview\<close> (BlendAI_Smart.py, 665-727; camera block 669-701),
  \<^item> \<open>BlendAISetup._position_reference_plane\<close> (BlendAI_Ubuntu.py, 162-188).

  Coordinates are floating-point numbers in the scripts; they are idealised here as
  real numbers, so rounding, infinities and NaN are outside this development.
\<close>

text \<open>\<open>mathutils.Vector\<close> with three components.\<close>

record Vector =
  vx :: real
  vy :: real
  vz :: real

text \<open>\<open>a + b\<close>, \<open>a - b\<close> and \<open>a / k\<close> on vectors, as the scripts use them.\<close>

definition vec_add :: "Vector \<Rightarrow> Vector \<Rightarrow> Vector" where
  "vec_add a b = \<lparr>vx = vx a + vx b, vy = vy a + vy b, vz = vz a + vz b\<rparr>"

definition vec_sub :: "Vector \<Rightarrow> Vector \<Rightarrow> Vector" where
  "vec_sub a b = \<lparr>vx = vx a - vx b, vy = vy a - vy b, vz = vz a - vz b\<rparr>"

definition vec_div :: "Vector \<Rightarrow> real \<Rightarrow> Vector" where
  "vec_div a k = \<lparr>vx = vx a / k, vy = vy a / k, vz = vz a / k\<rparr>"

text \<open>
  An object of \<open>self.imported_objects\<close>, as far as the scripts read it: \<open>obj.type\<close>,
  the coordinates \<open>vertex.co\<close> of \<open>obj.data.vertices\<close>, and \<open>obj.matrix_world\<close>.
  The host's 4x4 world matrix is represented by the map it induces on points,
  \<open>v \<mapsto> obj.matrix_world @ v\<close>.
\<close>

record imported_object =
  obj_type :: string
  vertices :: "Vector list"
  matrix_world :: "Vector \<Rightarrow> Vector"

text \<open>
  A scene object that the scripts move: the reference plane and the camera. Only the
  attributes that the modelled code writes are fields. The record is extensible and the
  functions below are polymorphic in the extension, which stands for every other
  attribute of the object.
\<close>

record scene_object =
  location :: Vector
  rotation_euler :: Vector
  scale :: Vector

text \<open>
  The attributes of \<open>self\<close> that the placement code reads and writes. Both classes,
  \<open>SmartBlendAI\<close> and \<open>BlendAISetup\<close>, initialise them to \<open>[]\<close> and \<open>None\<close>.
  The type parameter is the extension of the reference plane's record.
\<close>

record 'p blendai =
  imported_objects :: "imported_object list"
  reference_plane :: "'p scene_object_scheme option"

section \<open>Python built-ins\<close>

text \<open>\<open>min\<close> and \<open>max\<close> of an iterable raise \<open>ValueError\<close> when it is empty.\<close>

datatype py_error = ValueError

fun py_min :: "real list \<Rightarrow> py_error + real" where
  "py_min [] = Inl ValueError"
| "py_min (v # vs) = Inr (foldl (\<lambda>m a. if a < m then a else m) v vs)"

fun py_max :: "real list \<Rightarrow> py_error + real" where
  "py_max [] = Inl ValueError"
| "py_max (v # vs) = Inr (foldl (\<lambda>m a. if a > m then a else m) v vs)"

text \<open>
  \<open>max(model_size)\<close> and \<open>max(size)\<close>: the maximum over the three components of a
  vector, which is never an empty iterable.
\<close>

definition max_of_vector :: "Vector \<Rightarrow> real" where
  "max_of_vector s = foldl (\<lambda>m a. if a > m then a else m) (vx s) [vy s, vz s]"

text \<open>An exception raised by the first computation skips the rest.\<close>

definition bind_err :: "py_error + 'a \<Rightarrow> ('a \<Rightarrow> py_error + 'b) \<Rightarrow> py_error + 'b" where
  "bind_err r f = (case r of Inl e \<Rightarrow> Inl e | Inr v \<Rightarrow> f v)"

section \<open>Gathering the points and computing the bounds\<close>

text \<open>
  The loop shared by the three methods:
  \<^verbatim>\<open>
  all_coords = []
  for obj in self.imported_objects:
      if obj.type == 'MESH':
          for vertex in obj.data.vertices:
              world_coord = obj.matrix_world @ vertex.co
              all_coords.append(world_coord)
  \<close>
\<close>

fun gather_all_coords :: "imported_object list \<Rightarrow> Vector list" where
  "gather_all_coords [] = []"
| "gather_all_coords (obj # objs) =
     (if obj_type obj = ''MESH'' then map (matrix_world obj) (vertices obj) else [])
       @ gather_all_coords objs"

text \<open>
  \<^verbatim>\<open>
  min_coords = Vector((min(coord.x for coord in all_coords),
                       min(coord.y for coord in all_coords),
                       min(coord.z for coord in all_coords)))
  max_coords = Vector((max(coord.x for coord in all_coords),
                       max(coord.y for coord in all_coords),
                       max(coord.z for coord in all_coords)))
  \<close>
  The result is the pair \<open>(min_coords, max_coords)\<close>.
\<close>

definition min_max_coords :: "Vector list \<Rightarrow> py_error + (Vector \<times> Vector)" where
  "min_max_coords all_coords =
     bind_err (py_min (map vx all_coords)) (\<lambda>x0.
     bind_err (py_min (map vy all_coords)) (\<lambda>y0.
     bind_err (py_min (map vz all_coords)) (\<lambda>z0.
     bind_err (py_max (map vx all_coords)) (\<lambda>x1.
     bind_err (py_max (map vy all_coords)) (\<lambda>y1.
     bind_err (py_max (map vz all_coords)) (\<lambda>z1.
       Inr (\<lparr>vx = x0, vy = y0, vz = z0\<rparr>, \<lparr>vx = x1, vy = y1, vz = z1\<rparr>)))))))"

text \<open>The values both Smart methods derive from the bounds.\<close>

definition center_of :: "Vector \<Rightarrow> Vector \<Rightarrow> Vector" where
  "center_of min_coords max_coords = vec_div (vec_add min_coords max_coords) 2"

definition size_of :: "Vector \<Rightarrow> Vector \<Rightarrow> Vector" where
  "size_of min_coords max_coords = vec_sub max_coords min_coords"

section \<open>SmartBlendAI._position_reference_plane\<close>

text \<open>
  The body of the \<open>try\<close> block, entered with \<open>self.reference_plane\<close> bound to
  \<open>plane\<close>. The assignments to \<open>location.x\<close>, \<open>location.z\<close> and \<open>scale\<close> come after
  every computation that can raise. The logging calls are not modelled.
\<close>

definition position_reference_plane_try ::
  "('p, 'a) blendai_scheme \<Rightarrow> 'p scene_object_scheme \<Rightarrow> py_error + ('p, 'a) blendai_scheme" where
  "position_reference_plane_try self plane =
     (let all_coords = gather_all_coords (imported_objects self) in
      if all_coords \<noteq> [] then
        bind_err (min_max_coords all_coords) (\<lambda>(min_coords, max_coords).
          let model_center = center_of min_coords max_coords;
              model_size = size_of min_coords max_coords;
              offset_distance = max_of_vector model_size * 1.5;
              plane1 = plane\<lparr>location := (location plane)\<lparr>vx := vx model_center + offset_distance\<rparr>\<rparr>;
              plane2 = plane1\<lparr>location := (location plane1)\<lparr>vz := vz model_center\<rparr>\<rparr>;
              scale_factor = max_of_vector model_size * 0.8;
              plane3 = plane2\<lparr>scale := \<lparr>vx = scale_factor, vy = scale_factor, vz = 1\<rparr>\<rparr>
          in Inr (self\<lparr>reference_plane := Some plane3\<rparr>))
      else Inr self)"

text \<open>
  The whole method: the guard \<open>if not self.reference_plane or not self.imported_objects:
  return\<close>, then the \<open>try\<close> block, whose \<open>except Exception\<close> handler logs and returns.
  The method never raises; its result is the state of \<open>self\<close> afterwards.
\<close>

definition position_reference_plane_Smart ::
  "('p, 'a) blendai_scheme \<Rightarrow> ('p, 'a) blendai_scheme" where
  "position_reference_plane_Smart self =
     (case reference_plane self of
        None \<Rightarrow> self
      | Some plane \<Rightarrow>
          if imported_objects self = [] then self
          else (case position_reference_plane_try self plane of
                  Inl e \<Rightarrow> self
                | Inr self' \<Rightarrow> self'))"

section \<open>BlendAISetup._position_reference_plane\<close>

text \<open>
  The Ubuntu script has no \<open>try\<close> block, so an exception would reach the caller. It
  places the plane from the X extent only and does not touch the scale:
  \<^verbatim>\<open>
  model_width = max_coords.x - min_coords.x
  self.reference_plane.location.x = max_coords.x + model_width * 0.5
  self.reference_plane.location.z = (min_coords.z + max_coords.z) / 2
  \<close>
\<close>

definition position_reference_plane_Ubuntu ::
  "('p, 'a) blendai_scheme \<Rightarrow> py_error + ('p, 'a) blendai_scheme" where
  "position_reference_plane_Ubuntu self =
     (if imported_objects self = [] then Inr self
      else case reference_plane self of
        None \<Rightarrow> Inr self
      | Some plane \<Rightarrow>
         (let all_coords = gather_all_coords (imported_objects self) in
          if all_coords \<noteq> [] then
            bind_err (min_max_coords all_coords) (\<lambda>(min_coords, max_coords).
              let model_width = vx max_coords - vx min_coords;
                  plane1 = plane\<lparr>location := (location plane)\<lparr>vx := vx max_coords + model_width * 0.5\<rparr>\<rparr>;
                  plane2 = plane1\<lparr>location := (location plane1)\<lparr>vz := (vz min_coords + vz max_coords) / 2\<rparr>\<rparr>
              in Inr (self\<lparr>reference_plane := Some plane2\<rparr>))
          else Inr self))"

section \<open>SmartBlendAI.render_smart_preview: the camera block\<close>

text \<open>
  Lines 669-701 of BlendAI_Smart.py. \<open>camera\<close> is the result of
  \<open>bpy.data.objects.get('Camera')\<close>. Two host operations are parameters:
  \<open>camera_add\<close>, the object that \<open>bpy.ops.object.camera_add()\<close> creates and makes active, and
  \<open>to_track_euler\<close>, the conversion \<open>direction.to_track_quat('-Z', 'Y').to_euler()\<close>.
  The result is the scene's camera after the block. The lighting and render calls that
  follow are host calls and are not modelled; the enclosing \<open>except Exception\<close> handler
  would turn an exception into the return value \<open>False\<close>.
\<close>

definition render_smart_preview_camera ::
  "'c scene_object_scheme \<Rightarrow> (Vector \<Rightarrow> Vector) \<Rightarrow> ('p, 'a) blendai_scheme
     \<Rightarrow> 'c scene_object_scheme option \<Rightarrow> py_error + 'c scene_object_scheme option" where
  "render_smart_preview_camera camera_add to_track_euler self camera =
     (if imported_objects self \<noteq> [] then
        (let all_coords = gather_all_coords (imported_objects self) in
         if all_coords \<noteq> [] then
           bind_err (min_max_coords all_coords) (\<lambda>(min_coords, max_coords).
             let center = center_of min_coords max_coords;
                 size = size_of min_coords max_coords;
                 distance = max_of_vector size * 2;
                 camera1 = (case camera of None \<Rightarrow> camera_add | Some c \<Rightarrow> c);
                 camera2 = camera1\<lparr>location :=
                    vec_add center \<lparr>vx = distance, vy = - distance, vz = distance * 0.5\<rparr>\<rparr>;
                 direction = vec_sub center (location camera2);
                 camera3 = camera2\<lparr>rotation_euler := to_track_euler direction\<rparr>
             in Inr (Some camera3))
         else Inr camera)
      else Inr camera)"

section \<open>The specification's formulas\<close>

text \<open>
  The specification describes the arithmetic as an operation \<open>derivePlacement\<close> with two
  parameters, \<open>offsetMultiplier\<close> and \<open>cameraHeightRatio\<close>. The scripts have no such
  operation and no such parameters. The formulas of the specification are written down
  here, in its own words, to be compared with what the scripts compute.
\<close>

text \<open>\<open>maxExtent\<close>: the largest of the three components of \<open>box.max - box.min\<close>.\<close>

definition maxExtent :: "Vector \<Rightarrow> Vector \<Rightarrow> real" where
  "maxExtent box_min box_max =
     Max {vx box_max - vx box_min, vy box_max - vy box_min, vz box_max - vz box_min}"

text \<open>
  The auxiliary plane: X is the center's X plus \<open>maxExtent * offsetMultiplier\<close>; the
  uniform scale is \<open>maxExtent * 0.8\<close>.
\<close>

definition derivePlacement_plane_x :: "Vector \<Rightarrow> Vector \<Rightarrow> real \<Rightarrow> real" where
  "derivePlacement_plane_x box_min box_max offsetMultiplier =
     (vx box_min + vx box_max) / 2 + maxExtent box_min box_max * offsetMultiplier"

definition derivePlacement_plane_scale :: "Vector \<Rightarrow> Vector \<Rightarrow> real" where
  "derivePlacement_plane_scale box_min box_max = maxExtent box_min box_max * 0.8"

text \<open>
  The camera: \<open>center + (distance, -distance, distance * cameraHeightRatio)\<close> with
  \<open>distance = maxExtent * 2\<close>.
\<close>

definition derivePlacement_camera :: "Vector \<Rightarrow> Vector \<Rightarrow> real \<Rightarrow> Vector" where
  "derivePlacement_camera box_min box_max cameraHeightRatio =
     (let distance = maxExtent box_min box_max * 2 in
      \<lparr>vx = (vx box_min + vx box_max) / 2 + distance,
       vy = (vy box_min + vy box_max) / 2 - distance,
       vz = (vz box_min + vz box_max) / 2 + distance * cameraHeightRatio\<rparr>)"

text \<open>
  The convex hull of a list of points: a point is in it when it is a combination of the
  points with non-negative weights that sum to one.
\<close>

fun weighted_sum :: "real list \<Rightarrow> Vector list \<Rightarrow> Vector" where
  "weighted_sum (w # ws) (p # ps) =
     vec_add \<lparr>vx = w * vx p, vy = w * vy p, vz = w * vz p\<rparr> (weighted_sum ws ps)"
| "weighted_sum ws ps = \<lparr>vx = 0, vy = 0, vz = 0\<rparr>"

definition in_convex_hull :: "Vector \<Rightarrow> Vector list \<Rightarrow> bool" where
  "in_convex_hull p ps \<longleftrightarrow>
     (\<exists>ws. length ws = length ps \<and> (\<forall>w \<in> set ws. 0 \<le> w) \<and> sum_list ws = 1 \<and>
           weighted_sum ws ps = p)"

section \<open>Example scenes\<close>

text \<open>
  The scenario of the specification: one mesh with the vertices \<open>(0,0,0)\<close>, \<open>(2,0,0)\<close>
  and \<open>(0,0,4)\<close> under the identity world matrix, and a reference plane that starts at
  \<open>(0,3,0)\<close> with scale \<open>(1,1,1)\<close>.
\<close>

definition scenario_object :: imported_object where
  "scenario_object =
     \<lparr>obj_type = ''MESH'',
      vertices = [\<lparr>vx = 0, vy = 0, vz = 0\<rparr>, \<lparr>vx = 2, vy = 0, vz = 0\<rparr>,
                  \<lparr>vx = 0, vy = 0, vz = 4\<rparr>],
      matrix_world = (\<lambda>v. v)\<rparr>"

definition scenario_plane :: scene_object where
  "scenario_plane =
     \<lparr>location = \<lparr>vx = 0, vy = 3, vz = 0\<rparr>,
      rotation_euler = \<lparr>vx = 0, vy = 0, vz = 0\<rparr>,
      scale = \<lparr>vx = 1, vy = 1, vz = 1\<rparr>\<rparr>"

definition scenario_self :: "unit blendai" where
  "scenario_self = \<lparr>imported_objects = [scenario_object], reference_plane = Some scenario_plane\<rparr>"

text \<open>A stand-in for the host's conversion of a direction into Euler angles.\<close>

definition stub_to_track_euler :: "Vector \<Rightarrow> Vector" where
  "stub_to_track_euler direction = direction"

text \<open>A mesh without vertices: the gathered point list is empty.\<close>

definition empty_mesh_self :: "unit blendai" where
  "empty_mesh_self =
     \<lparr>imported_objects = [\<lparr>obj_type = ''MESH'', vertices = [], matrix_world = (\<lambda>v. v)\<rparr>],
      reference_plane = Some scenario_plane\<rparr>"

text \<open>A mesh with the single vertex \<open>(5,5,5)\<close>.\<close>

definition single_point_self :: "unit blendai" where
  "single_point_self =
     \<lparr>imported_objects =
        [\<lparr>obj_type = ''MESH'', vertices = [\<lparr>vx = 5, vy = 5, vz = 5\<rparr>], matrix_world = (\<lambda>v. v)\<rparr>],
      reference_plane = Some scenario_plane\<rparr>"

text \<open>
  Another scene with the same bounds as the scenario: two meshes with other vertices, one
  of them translated by its world matrix, a light between them, and another plane.
\<close>

definition other_self :: "unit blendai" where
  "other_self =
     \<lparr>imported_objects =
        [\<lparr>obj_type = ''MESH'',
          vertices = [\<lparr>vx = 0, vy = 0, vz = 4\<rparr>, \<lparr>vx = 1, vy = 0, vz = 1\<rparr>],
          matrix_world = (\<lambda>v. v)\<rparr>,
         \<lparr>obj_type = ''LIGHT'', vertices = [\<lparr>vx = 9, vy = 9, vz = 9\<rparr>], matrix_world = (\<lambda>v. v)\<rparr>,
         \<lparr>obj_type = ''MESH'',
          vertices = [\<lparr>vx = 0, vy = 0, vz = 0\<rparr>],
          matrix_world = (\<lambda>v. \<lparr>vx = vx v + 2, vy = vy v, vz = vz v\<rparr>)\<rparr>],
      reference_plane =
        Some \<lparr>location = \<lparr>vx = - 1, vy = - 2, vz = - 3\<rparr>,
              rotation_euler = \<lparr>vx = 0, vy = 0, vz = 1\<rparr>,
              scale = \<lparr>vx = 2, vy = 2, vz = 2\<rparr>\<rparr>\<rparr>"

text \<open>A scene without any mesh.\<close>

definition non_mesh_self :: "unit blendai" where
  "non_mesh_self =
     \<lparr>imported_objects =
        [\<lparr>obj_type = ''LIGHT'', vertices = [\<lparr>vx = 9, vy = 9, vz = 9\<rparr>], matrix_world = (\<lambda>v. v)\<rparr>,
         \<lparr>obj_type = ''EMPTY'', vertices = [], matrix_world = (\<lambda>v. v)\<rparr>],
      reference_plane = Some scenario_plane\<rparr>"

section \<open>Facts about the built-ins\<close>

lemma foldl_min_eq:
  "foldl (\<lambda>m a. if a < m then a else m) (v::real) vs = Min (set (v # vs))"
proof (induction vs arbitrary: v)
  case Nil
  show ?case by simp
next
  case (Cons a vs)
  have step: "(if a < v then a else v) = min v a" by (simp add: min_def)
  have "Min (insert (min v a) (set vs)) = Min (insert v (insert a (set vs)))"
    by (cases "set vs = {}") (simp_all add: min.assoc)
  then show ?case
    using Cons.IH [of "min v a"] by (simp add: step)
qed

lemma foldl_max_eq:
  "foldl (\<lambda>m a. if a > m then a else m) (v::real) vs = Max (set (v # vs))"
proof (induction vs arbitrary: v)
  case Nil
  show ?case by simp
next
  case (Cons a vs)
  have step: "(if a > v then a else v) = max v a" by (simp add: max_def)
  have "Max (insert (max v a) (set vs)) = Max (insert v (insert a (set vs)))"
    by (cases "set vs = {}") (simp_all add: max.assoc)
  then show ?case
    using Cons.IH [of "max v a"] by (simp add: step)
qed

lemma py_min_eq: "vs \<noteq> [] \<Longrightarrow> py_min vs = Inr (Min (set vs))"
  by (cases vs) (simp_all only: py_min.simps foldl_min_eq, simp)

lemma py_max_eq: "vs \<noteq> [] \<Longrightarrow> py_max vs = Inr (Max (set vs))"
  by (cases vs) (simp_all only: py_max.simps foldl_max_eq, simp)

lemma min_max_coords_eq:
  assumes "all_coords \<noteq> []"
  shows "min_max_coords all_coords =
     Inr (\<lparr>vx = Min (vx ` set all_coords), vy = Min (vy ` set all_coords),
           vz = Min (vz ` set all_coords)\<rparr>,
          \<lparr>vx = Max (vx ` set all_coords), vy = Max (vy ` set all_coords),
           vz = Max (vz ` set all_coords)\<rparr>)"
  using assms by (simp add: min_max_coords_def bind_err_def py_min_eq py_max_eq)

lemma min_max_coords_empty: "min_max_coords [] = Inl ValueError"
  by (simp add: min_max_coords_def bind_err_def)

section \<open>Facts about the three methods\<close>

lemma max_of_vector_eq: "max_of_vector s = Max {vx s, vy s, vz s}"
  by (simp only: max_of_vector_def foldl_max_eq list.set)

lemma max_of_vector_size: "max_of_vector (size_of mn mx) = maxExtent mn mx"
  by (simp add: max_of_vector_eq maxExtent_def size_of_def vec_sub_def)

lemma gather_nonempty_objects: "gather_all_coords objs \<noteq> [] \<Longrightarrow> objs \<noteq> []"
  by (cases objs) simp_all

lemma gather_filter:
  "gather_all_coords objs =
     concat (map (\<lambda>obj. map (matrix_world obj) (vertices obj))
                 (filter (\<lambda>obj. obj_type obj = ''MESH'') objs))"
  by (induction objs) simp_all

lemma update_x_z:
  "(l::Vector)\<lparr>vx := a\<rparr>\<lparr>vz := b\<rparr> = \<lparr>vx = a, vy = vy l, vz = b\<rparr>"
  by (cases l) simp

lemma min_max_coords_total:
  "cs \<noteq> [] \<Longrightarrow> \<exists>mn mx. min_max_coords cs = Inr (mn, mx)"
  by (simp add: min_max_coords_eq)

text \<open>
  What each method does when points were gathered (\<open>placed\<close>) and when none were
  (\<open>skipped\<close>).
\<close>

lemma Smart_placed:
  assumes "reference_plane self = Some plane"
    and "gather_all_coords (imported_objects self) \<noteq> []"
    and "min_max_coords (gather_all_coords (imported_objects self)) = Inr (mn, mx)"
  shows "position_reference_plane_Smart self =
     self\<lparr>reference_plane := Some (plane\<lparr>
       location := \<lparr>vx = vx (center_of mn mx) + maxExtent mn mx * 1.5,
                    vy = vy (location plane),
                    vz = vz (center_of mn mx)\<rparr>,
       scale := \<lparr>vx = maxExtent mn mx * 0.8, vy = maxExtent mn mx * 0.8, vz = 1\<rparr>\<rparr>)\<rparr>"
proof -
  have "imported_objects self \<noteq> []"
    using assms(2) by (rule gather_nonempty_objects)
  then show ?thesis
    using assms
    by (simp add: position_reference_plane_Smart_def position_reference_plane_try_def
        bind_err_def Let_def max_of_vector_size update_x_z)
qed

lemma Smart_skipped:
  assumes "gather_all_coords (imported_objects self) = []"
  shows "position_reference_plane_Smart self = self"
  using assms
  by (simp add: position_reference_plane_Smart_def position_reference_plane_try_def
      split: option.splits)

lemma Ubuntu_placed:
  assumes "reference_plane self = Some plane"
    and "gather_all_coords (imported_objects self) \<noteq> []"
    and "min_max_coords (gather_all_coords (imported_objects self)) = Inr (mn, mx)"
  shows "position_reference_plane_Ubuntu self =
     Inr (self\<lparr>reference_plane := Some (plane\<lparr>
       location := \<lparr>vx = vx mx + (vx mx - vx mn) * 0.5,
                    vy = vy (location plane),
                    vz = (vz mn + vz mx) / 2\<rparr>\<rparr>)\<rparr>)"
proof -
  have "imported_objects self \<noteq> []"
    using assms(2) by (rule gather_nonempty_objects)
  then show ?thesis
    using assms
    by (simp add: position_reference_plane_Ubuntu_def bind_err_def Let_def update_x_z)
qed

lemma Ubuntu_skipped:
  assumes "gather_all_coords (imported_objects self) = []"
  shows "position_reference_plane_Ubuntu self = Inr self"
  using assms
  by (simp add: position_reference_plane_Ubuntu_def split: option.splits)

lemma camera_placed:
  assumes "gather_all_coords (imported_objects self) \<noteq> []"
    and "min_max_coords (gather_all_coords (imported_objects self)) = Inr (mn, mx)"
  shows "render_smart_preview_camera camera_add to_track_euler self camera =
     Inr (Some ((case camera of None \<Rightarrow> camera_add | Some c \<Rightarrow> c)\<lparr>
       location := vec_add (center_of mn mx)
          \<lparr>vx = maxExtent mn mx * 2, vy = - (maxExtent mn mx * 2),
           vz = maxExtent mn mx * 2 * 0.5\<rparr>,
       rotation_euler := to_track_euler (vec_sub (center_of mn mx)
          (vec_add (center_of mn mx)
             \<lparr>vx = maxExtent mn mx * 2, vy = - (maxExtent mn mx * 2),
              vz = maxExtent mn mx * 2 * 0.5\<rparr>))\<rparr>))"
proof -
  have "imported_objects self \<noteq> []"
    using assms(1) by (rule gather_nonempty_objects)
  then show ?thesis
    using assms
    by (simp add: render_smart_preview_camera_def bind_err_def Let_def max_of_vector_size)
qed

lemma camera_skipped:
  assumes "gather_all_coords (imported_objects self) = []"
  shows "render_smart_preview_camera camera_add to_track_euler self camera = Inr camera"
  using assms
  by (simp add: render_smart_preview_camera_def)

lemma Smart_imported_objects:
  "imported_objects (position_reference_plane_Smart self) = imported_objects self"
proof (cases "gather_all_coords (imported_objects self) = []")
  case True
  then show ?thesis by (simp add: Smart_skipped)
next
  case False
  show ?thesis
  proof (cases "reference_plane self")
    case None
    then show ?thesis by (simp add: position_reference_plane_Smart_def)
  next
    case (Some plane)
    from False obtain mn mx
      where "min_max_coords (gather_all_coords (imported_objects self)) = Inr (mn, mx)"
      using min_max_coords_total by blast
    from Smart_placed [OF Some False this] show ?thesis by simp
  qed
qed

lemma Ubuntu_imported_objects:
  "map_sum id imported_objects (position_reference_plane_Ubuntu self)
     = Inr (imported_objects self)"
proof (cases "gather_all_coords (imported_objects self) = []")
  case True
  then show ?thesis by (simp add: Ubuntu_skipped)
next
  case False
  show ?thesis
  proof (cases "reference_plane self")
    case None
    then show ?thesis by (simp add: position_reference_plane_Ubuntu_def)
  next
    case (Some plane)
    from False obtain mn mx
      where "min_max_coords (gather_all_coords (imported_objects self)) = Inr (mn, mx)"
      using min_max_coords_total by blast
    from Ubuntu_placed [OF Some False this] show ?thesis by simp
  qed
qed

section \<open>The example scenes, evaluated\<close>

lemma scenario_coords:
  "gather_all_coords (imported_objects scenario_self) =
     [\<lparr>vx = 0, vy = 0, vz = 0\<rparr>, \<lparr>vx = 2, vy = 0, vz = 0\<rparr>, \<lparr>vx = 0, vy = 0, vz = 4\<rparr>]"
  by (simp add: scenario_self_def scenario_object_def)

lemma scenario_bounds:
  "min_max_coords [\<lparr>vx = 0, vy = 0, vz = 0\<rparr>, \<lparr>vx = 2, vy = 0, vz = 0\<rparr>, \<lparr>vx = 0, vy = 0, vz = 4\<rparr>]
     = Inr (\<lparr>vx = 0, vy = 0, vz = 0\<rparr>, \<lparr>vx = 2, vy = 0, vz = 4\<rparr>)"
  by (simp add: min_max_coords_def bind_err_def)

lemma scenario_maxExtent:
  "maxExtent \<lparr>vx = 0, vy = 0, vz = 0\<rparr> \<lparr>vx = 2, vy = 0, vz = 4\<rparr> = 4"
  by (simp add: maxExtent_def)

lemma scenario_center:
  "center_of \<lparr>vx = 0, vy = 0, vz = 0\<rparr> \<lparr>vx = 2, vy = 0, vz = 4\<rparr> = \<lparr>vx = 1, vy = 0, vz = 2\<rparr>"
  by (simp add: center_of_def vec_add_def vec_div_def)

lemma scenario_Smart:
  "position_reference_plane_Smart scenario_self =
     scenario_self\<lparr>reference_plane := Some (scenario_plane\<lparr>
        location := \<lparr>vx = 7, vy = 3, vz = 2\<rparr>,
        scale := \<lparr>vx = 3.2, vy = 3.2, vz = 1\<rparr>\<rparr>)\<rparr>"
proof -
  have "reference_plane scenario_self = Some scenario_plane"
    by (simp add: scenario_self_def)
  from Smart_placed [OF this, of "\<lparr>vx = 0, vy = 0, vz = 0\<rparr>" "\<lparr>vx = 2, vy = 0, vz = 4\<rparr>"]
  show ?thesis
    by (simp add: scenario_coords scenario_bounds scenario_maxExtent scenario_center
        scenario_plane_def)
qed

lemma scenario_Ubuntu:
  "position_reference_plane_Ubuntu scenario_self =
     Inr (scenario_self\<lparr>reference_plane := Some (scenario_plane\<lparr>
        location := \<lparr>vx = 3, vy = 3, vz = 2\<rparr>\<rparr>)\<rparr>)"
proof -
  have "reference_plane scenario_self = Some scenario_plane"
    by (simp add: scenario_self_def)
  from Ubuntu_placed [OF this, of "\<lparr>vx = 0, vy = 0, vz = 0\<rparr>" "\<lparr>vx = 2, vy = 0, vz = 4\<rparr>"]
  show ?thesis
    by (simp add: scenario_coords scenario_bounds scenario_plane_def)
qed

lemma empty_mesh_coords: "gather_all_coords (imported_objects empty_mesh_self) = []"
  by (simp add: empty_mesh_self_def)

lemma single_point_coords:
  "gather_all_coords (imported_objects single_point_self) = [\<lparr>vx = 5, vy = 5, vz = 5\<rparr>]"
  by (simp add: single_point_self_def)

lemma other_coords:
  "gather_all_coords (imported_objects other_self) =
     [\<lparr>vx = 0, vy = 0, vz = 4\<rparr>, \<lparr>vx = 1, vy = 0, vz = 1\<rparr>, \<lparr>vx = 2, vy = 0, vz = 0\<rparr>]"
  by (simp add: other_self_def)

lemma other_bounds:
  "min_max_coords [\<lparr>vx = 0, vy = 0, vz = 4\<rparr>, \<lparr>vx = 1, vy = 0, vz = 1\<rparr>, \<lparr>vx = 2, vy = 0, vz = 0\<rparr>]
     = Inr (\<lparr>vx = 0, vy = 0, vz = 0\<rparr>, \<lparr>vx = 2, vy = 0, vz = 4\<rparr>)"
  by (simp add: min_max_coords_def bind_err_def)

lemma other_plane:
  "reference_plane other_self =
     Some \<lparr>location = \<lparr>vx = - 1, vy = - 2, vz = - 3\<rparr>,
           rotation_euler = \<lparr>vx = 0, vy = 0, vz = 1\<rparr>,
           scale = \<lparr>vx = 2, vy = 2, vz = 2\<rparr>\<rparr>"
  by (simp add: other_self_def)

lemma other_Smart:
  "position_reference_plane_Smart other_self =
     other_self\<lparr>reference_plane :=
        Some \<lparr>location = \<lparr>vx = 7, vy = - 2, vz = 2\<rparr>,
              rotation_euler = \<lparr>vx = 0, vy = 0, vz = 1\<rparr>,
              scale = \<lparr>vx = 3.2, vy = 3.2, vz = 1\<rparr>\<rparr>\<rparr>"
proof -
  have coords: "gather_all_coords (imported_objects other_self) \<noteq> []"
    by (simp add: other_coords)
  have box: "min_max_coords (gather_all_coords (imported_objects other_self))
     = Inr (\<lparr>vx = 0, vy = 0, vz = 0\<rparr>, \<lparr>vx = 2, vy = 0, vz = 4\<rparr>)"
    by (simp add: other_coords other_bounds)
  from Smart_placed [OF other_plane coords box] show ?thesis
    by (simp add: scenario_maxExtent scenario_center)
qed

lemma other_Ubuntu:
  "position_reference_plane_Ubuntu other_self =
     Inr (other_self\<lparr>reference_plane :=
        Some \<lparr>location = \<lparr>vx = 3, vy = - 2, vz = 2\<rparr>,
              rotation_euler = \<lparr>vx = 0, vy = 0, vz = 1\<rparr>,
              scale = \<lparr>vx = 2, vy = 2, vz = 2\<rparr>\<rparr>\<rparr>)"
proof -
  have coords: "gather_all_coords (imported_objects other_self) \<noteq> []"
    by (simp add: other_coords)
  have box: "min_max_coords (gather_all_coords (imported_objects other_self))
     = Inr (\<lparr>vx = 0, vy = 0, vz = 0\<rparr>, \<lparr>vx = 2, vy = 0, vz = 4\<rparr>)"
    by (simp add: other_coords other_bounds)
  from Ubuntu_placed [OF other_plane coords box] show ?thesis
    by simp
qed

section \<open>Claims\<close>

subsection \<open>C1: empty input\<close>

text \<open>
  C1 (as amended). When the gathered point sequence is empty, no bounding box and no
  placement are produced, and no error is raised either: the guard \<open>if all_coords:\<close>
  skips the computation, so both \<open>_position_reference_plane\<close> methods and the camera
  block return normally and leave \<open>self\<close>, the plane and the camera as they were.
\<close>

theorem empty_input_skipped:
  "gather_all_coords (imported_objects self) = [] \<Longrightarrow>
     position_reference_plane_Smart self = self \<and>
     position_reference_plane_Ubuntu self = Inr self \<and>
     render_smart_preview_camera camera_add to_track_euler self camera = Inr camera"
  by (simp add: Smart_skipped Ubuntu_skipped camera_skipped)

theorem empty_input_skipped_witness:
  "gather_all_coords (imported_objects empty_mesh_self) = [] \<and>
   position_reference_plane_Smart empty_mesh_self = empty_mesh_self \<and>
   position_reference_plane_Ubuntu empty_mesh_self = Inr empty_mesh_self \<and>
   render_smart_preview_camera scenario_plane stub_to_track_euler empty_mesh_self None = Inr None"
  using empty_input_skipped [OF empty_mesh_coords, of scenario_plane stub_to_track_euler None]
  by (simp add: empty_mesh_coords)

text \<open>
  The claim as stated says that empty input fails with an error that reaches the caller.
  For a mesh without vertices the gathered list is empty, and none of the three methods
  returns an error. The computation of the bounds itself would raise \<open>ValueError\<close> on an
  empty list (\<open>min_max_coords_empty\<close>), but the guard keeps an empty list away from it.
\<close>

theorem empty_input_error_counterexample:
  "gather_all_coords (imported_objects empty_mesh_self) = [] \<and>
   \<not> isl (position_reference_plane_Ubuntu empty_mesh_self) \<and>
   position_reference_plane_Ubuntu empty_mesh_self = Inr empty_mesh_self \<and>
   position_reference_plane_Smart empty_mesh_self = empty_mesh_self \<and>
   \<not> isl (render_smart_preview_camera scenario_plane stub_to_track_euler empty_mesh_self None)"
  by (simp add: empty_mesh_coords Smart_skipped Ubuntu_skipped camera_skipped)

subsection \<open>C2: the center and the input points\<close>

text \<open>
  C2 (as amended). For every non-empty point sequence the bounds exist, and the center
  computed from them lies within the axis-aligned bounding box of the points: on each
  axis it is between the least and the greatest coordinate of the input.
\<close>

theorem center_within_bounds:
  assumes "all_coords \<noteq> []"
  shows "\<exists>mn mx. min_max_coords all_coords = Inr (mn, mx) \<and>
     Min (vx ` set all_coords) \<le> vx (center_of mn mx) \<and>
     vx (center_of mn mx) \<le> Max (vx ` set all_coords) \<and>
     Min (vy ` set all_coords) \<le> vy (center_of mn mx) \<and>
     vy (center_of mn mx) \<le> Max (vy ` set all_coords) \<and>
     Min (vz ` set all_coords) \<le> vz (center_of mn mx) \<and>
     vz (center_of mn mx) \<le> Max (vz ` set all_coords)"
proof -
  have le: "Min (f ` set all_coords) \<le> Max (f ` set all_coords)" for f :: "Vector \<Rightarrow> real"
  proof -
    from assms obtain p where p: "p \<in> set all_coords"
      by (cases all_coords) auto
    then have "Min (f ` set all_coords) \<le> f p" and "f p \<le> Max (f ` set all_coords)"
      by simp_all
    then show ?thesis by (rule order_trans)
  qed
  show ?thesis
    using le [of vx] le [of vy] le [of vz]
    by (simp add: min_max_coords_eq [OF assms] center_of_def vec_add_def vec_div_def)
qed

theorem center_within_bounds_witness:
  "[\<lparr>vx = 1, vy = 0, vz = 0\<rparr>, \<lparr>vx = 0, vy = 1, vz = 0\<rparr>, \<lparr>vx = 0, vy = 0, vz = 1\<rparr>] \<noteq> [] \<and>
   min_max_coords [\<lparr>vx = 1, vy = 0, vz = 0\<rparr>, \<lparr>vx = 0, vy = 1, vz = 0\<rparr>, \<lparr>vx = 0, vy = 0, vz = 1\<rparr>]
     = Inr (\<lparr>vx = 0, vy = 0, vz = 0\<rparr>, \<lparr>vx = 1, vy = 1, vz = 1\<rparr>) \<and>
   (0::real) \<le> vx (center_of \<lparr>vx = 0, vy = 0, vz = 0\<rparr> \<lparr>vx = 1, vy = 1, vz = 1\<rparr>) \<and>
   vx (center_of \<lparr>vx = 0, vy = 0, vz = 0\<rparr> \<lparr>vx = 1, vy = 1, vz = 1\<rparr>) \<le> 1"
  using center_within_bounds
    [of "[\<lparr>vx = 1, vy = 0, vz = 0\<rparr>, \<lparr>vx = 0, vy = 1, vz = 0\<rparr>, \<lparr>vx = 0, vy = 0, vz = 1\<rparr>]"]
  by (simp add: min_max_coords_def bind_err_def)

text \<open>
  The claim as stated puts the center inside the convex hull of the points. The points
  \<open>(1,0,0)\<close>, \<open>(0,1,0)\<close> and \<open>(0,0,1)\<close> have the bounds \<open>(0,0,0)\<close> and \<open>(1,1,1)\<close>,
  so the center is \<open>(1/2,1/2,1/2)\<close>; every convex combination of the three points has
  coordinates that sum to 1, and those of the center sum to 3/2.
\<close>

theorem center_convex_hull_counterexample:
  "min_max_coords [\<lparr>vx = 1, vy = 0, vz = 0\<rparr>, \<lparr>vx = 0, vy = 1, vz = 0\<rparr>, \<lparr>vx = 0, vy = 0, vz = 1\<rparr>]
     = Inr (\<lparr>vx = 0, vy = 0, vz = 0\<rparr>, \<lparr>vx = 1, vy = 1, vz = 1\<rparr>) \<and>
   \<not> in_convex_hull (center_of \<lparr>vx = 0, vy = 0, vz = 0\<rparr> \<lparr>vx = 1, vy = 1, vz = 1\<rparr>)
        [\<lparr>vx = 1, vy = 0, vz = 0\<rparr>, \<lparr>vx = 0, vy = 1, vz = 0\<rparr>, \<lparr>vx = 0, vy = 0, vz = 1\<rparr>]"
proof
  show "min_max_coords [\<lparr>vx = 1, vy = 0, vz = 0\<rparr>, \<lparr>vx = 0, vy = 1, vz = 0\<rparr>, \<lparr>vx = 0, vy = 0, vz = 1\<rparr>]
     = Inr (\<lparr>vx = 0, vy = 0, vz = 0\<rparr>, \<lparr>vx = 1, vy = 1, vz = 1\<rparr>)"
    by (simp add: min_max_coords_def bind_err_def)
next
  show "\<not> in_convex_hull (center_of \<lparr>vx = 0, vy = 0, vz = 0\<rparr> \<lparr>vx = 1, vy = 1, vz = 1\<rparr>)
        [\<lparr>vx = 1, vy = 0, vz = 0\<rparr>, \<lparr>vx = 0, vy = 1, vz = 0\<rparr>, \<lparr>vx = 0, vy = 0, vz = 1\<rparr>]"
  proof
    assume "in_convex_hull (center_of \<lparr>vx = 0, vy = 0, vz = 0\<rparr> \<lparr>vx = 1, vy = 1, vz = 1\<rparr>)
        [\<lparr>vx = 1, vy = 0, vz = 0\<rparr>, \<lparr>vx = 0, vy = 1, vz = 0\<rparr>, \<lparr>vx = 0, vy = 0, vz = 1\<rparr>]"
    then obtain ws where len: "length ws = Suc (Suc (Suc 0))" and total: "sum_list ws = 1"
      and comb: "weighted_sum ws
          [\<lparr>vx = 1, vy = 0, vz = 0\<rparr>, \<lparr>vx = 0, vy = 1, vz = 0\<rparr>, \<lparr>vx = 0, vy = 0, vz = 1\<rparr>]
        = center_of \<lparr>vx = 0, vy = 0, vz = 0\<rparr> \<lparr>vx = 1, vy = 1, vz = 1\<rparr>"
      by (auto simp: in_convex_hull_def)
    from len obtain a b c where ws: "ws = [a, b, c]"
      by (auto simp: length_Suc_conv)
    from comb have "a = 1 / 2" "b = 1 / 2" "c = 1 / 2"
      by (simp_all add: ws vec_add_def center_of_def vec_div_def)
    with total show False
      by (simp add: ws)
  qed
qed

subsection \<open>C3: the reference plane\<close>

text \<open>
  C3 (as amended). When a plane is set and points were gathered,
  \<open>SmartBlendAI._position_reference_plane\<close> puts the plane at
  \<open>center.x + maxExtent * 1.5\<close> on X, with the multiplier fixed at 1.5, and at
  \<open>center.z\<close> on Z, and sets its scale to \<open>(maxExtent * 0.8, maxExtent * 0.8, 1)\<close>.
  \<open>BlendAISetup._position_reference_plane\<close> puts the plane at
  \<open>max.x + (max.x - min.x) * 0.5\<close> on X and at \<open>center.z\<close> on Z, and leaves its scale
  as it was.
\<close>

theorem plane_placement:
  assumes "reference_plane self = Some plane"
    and "gather_all_coords (imported_objects self) \<noteq> []"
  shows "\<exists>mn mx. min_max_coords (gather_all_coords (imported_objects self)) = Inr (mn, mx) \<and>
     position_reference_plane_Smart self =
       self\<lparr>reference_plane := Some (plane\<lparr>
         location := \<lparr>vx = derivePlacement_plane_x mn mx 1.5,
                      vy = vy (location plane),
                      vz = (vz mn + vz mx) / 2\<rparr>,
         scale := \<lparr>vx = derivePlacement_plane_scale mn mx,
                   vy = derivePlacement_plane_scale mn mx, vz = 1\<rparr>\<rparr>)\<rparr> \<and>
     position_reference_plane_Ubuntu self =
       Inr (self\<lparr>reference_plane := Some (plane\<lparr>
         location := \<lparr>vx = vx mx + (vx mx - vx mn) * 0.5,
                      vy = vy (location plane),
                      vz = (vz mn + vz mx) / 2\<rparr>\<rparr>)\<rparr>)"
proof -
  from assms(2) obtain mn mx
    where box: "min_max_coords (gather_all_coords (imported_objects self)) = Inr (mn, mx)"
    using min_max_coords_total by blast
  have center: "vx (center_of mn mx) = (vx mn + vx mx) / 2"
    "vz (center_of mn mx) = (vz mn + vz mx) / 2"
    by (simp_all add: center_of_def vec_add_def vec_div_def)
  show ?thesis
    using box Smart_placed [OF assms box] Ubuntu_placed [OF assms box]
    by (simp add: center derivePlacement_plane_x_def derivePlacement_plane_scale_def)
qed

theorem plane_placement_witness:
  "reference_plane scenario_self = Some scenario_plane \<and>
   gather_all_coords (imported_objects scenario_self) \<noteq> [] \<and>
   position_reference_plane_Smart scenario_self =
     scenario_self\<lparr>reference_plane := Some (scenario_plane\<lparr>
        location := \<lparr>vx = 7, vy = 3, vz = 2\<rparr>,
        scale := \<lparr>vx = 3.2, vy = 3.2, vz = 1\<rparr>\<rparr>)\<rparr> \<and>
   position_reference_plane_Ubuntu scenario_self =
     Inr (scenario_self\<lparr>reference_plane := Some (scenario_plane\<lparr>
        location := \<lparr>vx = 3, vy = 3, vz = 2\<rparr>\<rparr>)\<rparr>)"
proof -
  have plane: "reference_plane scenario_self = Some scenario_plane"
    by (simp add: scenario_self_def)
  have coords: "gather_all_coords (imported_objects scenario_self) \<noteq> []"
    by (simp add: scenario_coords)
  from plane_placement [OF plane coords] show ?thesis
    using plane coords
    by (auto simp: scenario_coords scenario_bounds scenario_maxExtent
        derivePlacement_plane_x_def derivePlacement_plane_scale_def scenario_plane_def)
qed

text \<open>
  The claim as stated holds for every \<open>offsetMultiplier \<ge> 0\<close> and for both scripts. In
  the scenario the Smart script puts the plane at X = 7, where the formula with
  \<open>offsetMultiplier = 2\<close> gives 9; the Ubuntu script puts it at X = 3, where the formula
  with \<open>offsetMultiplier = 1.5\<close> gives 7, and leaves the scale at 1, where the formula
  gives 3.2.
\<close>

theorem plane_offset_counterexample:
  "min_max_coords (gather_all_coords (imported_objects scenario_self))
     = Inr (\<lparr>vx = 0, vy = 0, vz = 0\<rparr>, \<lparr>vx = 2, vy = 0, vz = 4\<rparr>) \<and>
   position_reference_plane_Smart scenario_self =
     scenario_self\<lparr>reference_plane := Some (scenario_plane\<lparr>
        location := \<lparr>vx = 7, vy = 3, vz = 2\<rparr>,
        scale := \<lparr>vx = 3.2, vy = 3.2, vz = 1\<rparr>\<rparr>)\<rparr> \<and>
   (0::real) \<le> 2 \<and>
   derivePlacement_plane_x \<lparr>vx = 0, vy = 0, vz = 0\<rparr> \<lparr>vx = 2, vy = 0, vz = 4\<rparr> 2 \<noteq> 7 \<and>
   position_reference_plane_Ubuntu scenario_self =
     Inr (scenario_self\<lparr>reference_plane := Some (scenario_plane\<lparr>
        location := \<lparr>vx = 3, vy = 3, vz = 2\<rparr>\<rparr>)\<rparr>) \<and>
   (0::real) \<le> 1.5 \<and>
   derivePlacement_plane_x \<lparr>vx = 0, vy = 0, vz = 0\<rparr> \<lparr>vx = 2, vy = 0, vz = 4\<rparr> 1.5 \<noteq> 3 \<and>
   scale scenario_plane = \<lparr>vx = 1, vy = 1, vz = 1\<rparr> \<and>
   derivePlacement_plane_scale \<lparr>vx = 0, vy = 0, vz = 0\<rparr> \<lparr>vx = 2, vy = 0, vz = 4\<rparr> \<noteq> 1"
  by (simp add: scenario_coords scenario_bounds scenario_Smart scenario_Ubuntu
      scenario_maxExtent derivePlacement_plane_x_def derivePlacement_plane_scale_def
      scenario_plane_def)

subsection \<open>C4: the camera\<close>

text \<open>
  C4 (as amended). When points were gathered, \<open>render_smart_preview\<close> places the camera at
  \<open>center + (distance, -distance, distance * 0.5)\<close> with \<open>distance = maxExtent * 2\<close>:
  the height ratio is the fixed constant 0.5.
\<close>

theorem camera_placement:
  assumes "gather_all_coords (imported_objects self) \<noteq> []"
  shows "\<exists>mn mx c. min_max_coords (gather_all_coords (imported_objects self)) = Inr (mn, mx) \<and>
     render_smart_preview_camera camera_add to_track_euler self camera = Inr (Some c) \<and>
     location c = derivePlacement_camera mn mx 0.5"
proof -
  from assms obtain mn mx
    where box: "min_max_coords (gather_all_coords (imported_objects self)) = Inr (mn, mx)"
    using min_max_coords_total by blast
  show ?thesis
    using box camera_placed [OF assms box, of camera_add to_track_euler camera]
    by (simp add: derivePlacement_camera_def Let_def center_of_def vec_add_def vec_div_def)
qed

theorem camera_placement_witness:
  "gather_all_coords (imported_objects scenario_self) \<noteq> [] \<and>
   (\<exists>c. render_smart_preview_camera scenario_plane stub_to_track_euler scenario_self None
           = Inr (Some c) \<and>
        location c = \<lparr>vx = 9, vy = - 8, vz = 6\<rparr>)"
proof -
  have coords: "gather_all_coords (imported_objects scenario_self) \<noteq> []"
    by (simp add: scenario_coords)
  from camera_placement [OF coords, of scenario_plane stub_to_track_euler None] show ?thesis
    using coords
    by (auto simp: scenario_coords scenario_bounds scenario_maxExtent
        derivePlacement_camera_def)
qed

text \<open>
  The claim as stated holds for every \<open>cameraHeightRatio\<close>. In the scenario the camera is
  placed at \<open>(9,-8,6)\<close>; the formula with \<open>cameraHeightRatio = 1\<close> gives \<open>(9,-8,10)\<close>.
\<close>

theorem camera_height_ratio_counterexample:
  "min_max_coords (gather_all_coords (imported_objects scenario_self))
     = Inr (\<lparr>vx = 0, vy = 0, vz = 0\<rparr>, \<lparr>vx = 2, vy = 0, vz = 4\<rparr>) \<and>
   render_smart_preview_camera scenario_plane stub_to_track_euler scenario_self None =
     Inr (Some (scenario_plane\<lparr>location := \<lparr>vx = 9, vy = - 8, vz = 6\<rparr>,
                               rotation_euler := \<lparr>vx = - 8, vy = 8, vz = - 4\<rparr>\<rparr>)) \<and>
   derivePlacement_camera \<lparr>vx = 0, vy = 0, vz = 0\<rparr> \<lparr>vx = 2, vy = 0, vz = 4\<rparr> 1
     = \<lparr>vx = 9, vy = - 8, vz = 10\<rparr> \<and>
   \<lparr>vx = 9, vy = - 8, vz = 10\<rparr> \<noteq> \<lparr>vx = 9, vy = - 8, vz = (6::real)\<rparr>"
proof -
  have coords: "gather_all_coords (imported_objects scenario_self) \<noteq> []"
    by (simp add: scenario_coords)
  have box: "min_max_coords (gather_all_coords (imported_objects scenario_self))
     = Inr (\<lparr>vx = 0, vy = 0, vz = 0\<rparr>, \<lparr>vx = 2, vy = 0, vz = 4\<rparr>)"
    by (simp add: scenario_coords scenario_bounds)
  show ?thesis
    using box camera_placed [OF coords box, of scenario_plane stub_to_track_euler None]
    by (simp add: scenario_maxExtent scenario_center vec_add_def vec_sub_def
        stub_to_track_euler_def derivePlacement_camera_def)
qed

subsection \<open>C5: the bounds\<close>

text \<open>
  C5. For every non-empty point sequence the bounds are computed without an error; on
  each axis \<open>min_coords\<close> is the least and \<open>max_coords\<close> the greatest coordinate of the
  input, and \<open>min_coords \<le> max_coords\<close> componentwise. The computation returns a value
  only, and the methods that use it leave \<open>self.imported_objects\<close> as it was.
\<close>

theorem bounding_box_min_max:
  assumes "all_coords \<noteq> []"
  shows "min_max_coords all_coords =
       Inr (\<lparr>vx = Min (vx ` set all_coords), vy = Min (vy ` set all_coords),
             vz = Min (vz ` set all_coords)\<rparr>,
            \<lparr>vx = Max (vx ` set all_coords), vy = Max (vy ` set all_coords),
             vz = Max (vz ` set all_coords)\<rparr>) \<and>
     Min (vx ` set all_coords) \<le> Max (vx ` set all_coords) \<and>
     Min (vy ` set all_coords) \<le> Max (vy ` set all_coords) \<and>
     Min (vz ` set all_coords) \<le> Max (vz ` set all_coords) \<and>
     imported_objects (position_reference_plane_Smart self) = imported_objects self \<and>
     map_sum id imported_objects (position_reference_plane_Ubuntu self)
       = Inr (imported_objects self)"
proof -
  have le: "Min (f ` set all_coords) \<le> Max (f ` set all_coords)" for f :: "Vector \<Rightarrow> real"
  proof -
    from assms obtain p where p: "p \<in> set all_coords"
      by (cases all_coords) auto
    then have "Min (f ` set all_coords) \<le> f p" and "f p \<le> Max (f ` set all_coords)"
      by simp_all
    then show ?thesis by (rule order_trans)
  qed
  show ?thesis
    using le [of vx] le [of vy] le [of vz]
    by (simp add: min_max_coords_eq [OF assms] Smart_imported_objects Ubuntu_imported_objects)
qed

theorem bounding_box_min_max_witness:
  "[\<lparr>vx = 0, vy = 0, vz = 0\<rparr>, \<lparr>vx = 2, vy = 0, vz = 0\<rparr>, \<lparr>vx = 0, vy = 0, vz = 4\<rparr>] \<noteq> [] \<and>
   min_max_coords [\<lparr>vx = 0, vy = 0, vz = 0\<rparr>, \<lparr>vx = 2, vy = 0, vz = 0\<rparr>, \<lparr>vx = 0, vy = 0, vz = 4\<rparr>]
     = Inr (\<lparr>vx = 0, vy = 0, vz = 0\<rparr>, \<lparr>vx = 2, vy = 0, vz = 4\<rparr>) \<and>
   imported_objects (position_reference_plane_Smart scenario_self)
     = imported_objects scenario_self"
  using bounding_box_min_max
    [of "[\<lparr>vx = 0, vy = 0, vz = 0\<rparr>, \<lparr>vx = 2, vy = 0, vz = 0\<rparr>, \<lparr>vx = 0, vy = 0, vz = 4\<rparr>]"
        scenario_self]
  by simp

subsection \<open>C6: the degenerate box\<close>

text \<open>
  C6. When \<open>maxExtent = 0\<close>, the camera distance and the plane offset are 0, the camera
  block returns without an error and places the camera exactly at the center, and every
  input point is that center.
\<close>

theorem degenerate_placement:
  assumes "gather_all_coords (imported_objects self) \<noteq> []"
    and "min_max_coords (gather_all_coords (imported_objects self)) = Inr (mn, mx)"
    and "maxExtent mn mx = 0"
  shows "max_of_vector (size_of mn mx) * 2 = 0 \<and>
     (\<exists>c. render_smart_preview_camera camera_add to_track_euler self camera = Inr (Some c) \<and>
          location c = center_of mn mx) \<and>
     max_of_vector (size_of mn mx) * 1.5 = 0 \<and>
     (\<forall>q \<in> set (gather_all_coords (imported_objects self)). q = center_of mn mx)"
proof -
  let ?cs = "gather_all_coords (imported_objects self)"
  have fin: "finite (f ` set ?cs)" for f :: "Vector \<Rightarrow> real"
    by simp
  from assms(2) have mn: "mn = \<lparr>vx = Min (vx ` set ?cs), vy = Min (vy ` set ?cs),
             vz = Min (vz ` set ?cs)\<rparr>"
    and mx: "mx = \<lparr>vx = Max (vx ` set ?cs), vy = Max (vy ` set ?cs),
             vz = Max (vz ` set ?cs)\<rparr>"
    by (simp_all add: min_max_coords_eq [OF assms(1)])
  have between: "f mn \<le> f q \<and> f q \<le> f mx"
    if "q \<in> set ?cs" and "f mn = Min (f ` set ?cs)" and "f mx = Max (f ` set ?cs)"
    for q and f :: "Vector \<Rightarrow> real"
    using that by simp
  from assms(3) have ext: "vx mx - vx mn \<le> 0" "vy mx - vy mn \<le> 0" "vz mx - vz mn \<le> 0"
    by (simp_all add: maxExtent_def)
  have pt: "q = mn \<and> q = mx" if q: "q \<in> set ?cs" for q
  proof -
    have "vx mn \<le> vx q \<and> vx q \<le> vx mx" "vy mn \<le> vy q \<and> vy q \<le> vy mx"
      "vz mn \<le> vz q \<and> vz q \<le> vz mx"
      using q by (simp_all add: mn mx)
    with ext have "vx q = vx mn" "vy q = vy mn" "vz q = vz mn"
      "vx q = vx mx" "vy q = vy mx" "vz q = vz mx"
      by simp_all
    then show ?thesis by simp
  qed
  from assms(1) obtain p where "p \<in> set ?cs"
    by (cases ?cs) auto
  with pt have same: "mn = mx"
    by blast
  have center: "center_of v v = v" for v
    by (simp add: center_of_def vec_add_def vec_div_def)
  have ext0: "maxExtent mx mx = 0"
    using assms(3) by (simp add: same)
  have zero: "max_of_vector (size_of mx mx) = 0"
    using ext0 by (simp add: max_of_vector_size)
  have all_mx: "\<forall>q \<in> set ?cs. q = mx"
    using pt by blast
  have cam: "\<exists>c. render_smart_preview_camera camera_add to_track_euler self camera
       = Inr (Some c) \<and> location c = mx"
    using camera_placed [OF assms(1) assms(2), of camera_add to_track_euler camera]
    by (simp add: same ext0 center vec_add_def)
  show ?thesis
    using cam all_mx by (simp add: same zero center)
qed

theorem degenerate_placement_witness:
  "gather_all_coords (imported_objects single_point_self) \<noteq> [] \<and>
   min_max_coords (gather_all_coords (imported_objects single_point_self))
     = Inr (\<lparr>vx = 5, vy = 5, vz = 5\<rparr>, \<lparr>vx = 5, vy = 5, vz = 5\<rparr>) \<and>
   maxExtent \<lparr>vx = 5, vy = 5, vz = 5\<rparr> \<lparr>vx = 5, vy = 5, vz = 5\<rparr> = 0 \<and>
   (\<exists>c. render_smart_preview_camera scenario_plane stub_to_track_euler single_point_self None
           = Inr (Some c) \<and>
        location c = \<lparr>vx = 5, vy = 5, vz = 5\<rparr>)"
proof -
  have coords: "gather_all_coords (imported_objects single_point_self) \<noteq> []"
    by (simp add: single_point_coords)
  have box: "min_max_coords (gather_all_coords (imported_objects single_point_self))
     = Inr (\<lparr>vx = 5, vy = 5, vz = 5\<rparr>, \<lparr>vx = 5, vy = 5, vz = 5\<rparr>)"
    by (simp add: single_point_coords min_max_coords_def bind_err_def)
  have ext: "maxExtent \<lparr>vx = 5, vy = 5, vz = 5\<rparr> \<lparr>vx = 5, vy = 5, vz = 5\<rparr> = 0"
    by (simp add: maxExtent_def)
  from degenerate_placement [OF coords box ext, of scenario_plane stub_to_track_euler None]
  show ?thesis
    using coords box ext by (simp add: center_of_def vec_add_def vec_div_def)
qed

subsection \<open>C7: a single point\<close>

text \<open>
  C7. For a single-point input \<open>[p]\<close> the bounds are \<open>min_coords = max_coords = p\<close>, and
  the size derived from them is the zero vector.
\<close>

theorem single_point_bounds:
  "min_max_coords [p] = Inr (p, p) \<and>
   size_of p p = \<lparr>vx = 0, vy = 0, vz = 0\<rparr>"
  by (simp add: min_max_coords_def bind_err_def size_of_def vec_sub_def)

subsection \<open>C8: determinism\<close>

text \<open>
  C8 (as amended). The values that the code derives depend on the bounding box only.
  Two invocations whose gathered points have the same bounds yield the same camera
  location and orientation, the same plane X and Z and, in the Smart script, the same
  plane scale, whatever the points, the objects, the earlier state of the plane and the
  earlier camera were. The Y component of the plane's location in both scripts, and the
  plane's scale in the Ubuntu script, are not derived: they are the values the plane had
  before the call.
\<close>

theorem placement_depends_on_box_only:
  assumes "gather_all_coords (imported_objects s1) \<noteq> []"
    and "gather_all_coords (imported_objects s2) \<noteq> []"
    and "min_max_coords (gather_all_coords (imported_objects s1))
         = min_max_coords (gather_all_coords (imported_objects s2))"
    and "reference_plane s1 = Some p1"
    and "reference_plane s2 = Some p2"
  shows "(\<exists>c1 c2.
       render_smart_preview_camera camera_add1 to_track_euler s1 camera1 = Inr (Some c1) \<and>
       render_smart_preview_camera camera_add2 to_track_euler s2 camera2 = Inr (Some c2) \<and>
       location c1 = location c2 \<and> rotation_euler c1 = rotation_euler c2) \<and>
     (\<exists>q1 q2.
       reference_plane (position_reference_plane_Smart s1) = Some q1 \<and>
       reference_plane (position_reference_plane_Smart s2) = Some q2 \<and>
       vx (location q1) = vx (location q2) \<and> vz (location q1) = vz (location q2) \<and>
       scale q1 = scale q2 \<and>
       vy (location q1) = vy (location p1) \<and> vy (location q2) = vy (location p2)) \<and>
     (\<exists>q1 q2.
       map_sum id reference_plane (position_reference_plane_Ubuntu s1) = Inr (Some q1) \<and>
       map_sum id reference_plane (position_reference_plane_Ubuntu s2) = Inr (Some q2) \<and>
       vx (location q1) = vx (location q2) \<and> vz (location q1) = vz (location q2) \<and>
       vy (location q1) = vy (location p1) \<and> vy (location q2) = vy (location p2) \<and>
       scale q1 = scale p1 \<and> scale q2 = scale p2)"
proof -
  from assms(1) obtain mn mx
    where box1: "min_max_coords (gather_all_coords (imported_objects s1)) = Inr (mn, mx)"
    using min_max_coords_total by blast
  with assms(3)
  have box2: "min_max_coords (gather_all_coords (imported_objects s2)) = Inr (mn, mx)"
    by simp
  have camera: "\<exists>c1 c2.
       render_smart_preview_camera camera_add1 to_track_euler s1 camera1 = Inr (Some c1) \<and>
       render_smart_preview_camera camera_add2 to_track_euler s2 camera2 = Inr (Some c2) \<and>
       location c1 = location c2 \<and> rotation_euler c1 = rotation_euler c2"
    using camera_placed [OF assms(1) box1, of camera_add1 to_track_euler camera1]
      camera_placed [OF assms(2) box2, of camera_add2 to_track_euler camera2]
    by simp
  have smart: "\<exists>q1 q2.
       reference_plane (position_reference_plane_Smart s1) = Some q1 \<and>
       reference_plane (position_reference_plane_Smart s2) = Some q2 \<and>
       vx (location q1) = vx (location q2) \<and> vz (location q1) = vz (location q2) \<and>
       scale q1 = scale q2 \<and>
       vy (location q1) = vy (location p1) \<and> vy (location q2) = vy (location p2)"
    using Smart_placed [OF assms(4) assms(1) box1] Smart_placed [OF assms(5) assms(2) box2]
    by simp
  have ubuntu: "\<exists>q1 q2.
       map_sum id reference_plane (position_reference_plane_Ubuntu s1) = Inr (Some q1) \<and>
       map_sum id reference_plane (position_reference_plane_Ubuntu s2) = Inr (Some q2) \<and>
       vx (location q1) = vx (location q2) \<and> vz (location q1) = vz (location q2) \<and>
       vy (location q1) = vy (location p1) \<and> vy (location q2) = vy (location p2) \<and>
       scale q1 = scale p1 \<and> scale q2 = scale p2"
    using Ubuntu_placed [OF assms(4) assms(1) box1] Ubuntu_placed [OF assms(5) assms(2) box2]
    by simp
  from camera smart ubuntu show ?thesis by blast
qed

theorem placement_depends_on_box_only_witness:
  "gather_all_coords (imported_objects scenario_self) \<noteq> [] \<and>
   gather_all_coords (imported_objects other_self) \<noteq> [] \<and>
   gather_all_coords (imported_objects scenario_self)
     \<noteq> gather_all_coords (imported_objects other_self) \<and>
   min_max_coords (gather_all_coords (imported_objects scenario_self))
     = min_max_coords (gather_all_coords (imported_objects other_self)) \<and>
   reference_plane scenario_self \<noteq> reference_plane other_self \<and>
   (\<exists>q1 q2.
       reference_plane (position_reference_plane_Smart scenario_self) = Some q1 \<and>
       reference_plane (position_reference_plane_Smart other_self) = Some q2 \<and>
       vx (location q1) = vx (location q2) \<and> vz (location q1) = vz (location q2) \<and>
       scale q1 = scale q2 \<and>
       vy (location q1) = 3 \<and> vy (location q2) = - 2) \<and>
   (\<exists>q1 q2.
       map_sum id reference_plane (position_reference_plane_Ubuntu scenario_self)
         = Inr (Some q1) \<and>
       map_sum id reference_plane (position_reference_plane_Ubuntu other_self)
         = Inr (Some q2) \<and>
       vx (location q1) = vx (location q2) \<and> vz (location q1) = vz (location q2) \<and>
       vy (location q1) = 3 \<and> vy (location q2) = - 2 \<and>
       scale q1 = \<lparr>vx = 1, vy = 1, vz = 1\<rparr> \<and> scale q2 = \<lparr>vx = 2, vy = 2, vz = 2\<rparr>)"
proof -
  have h1: "gather_all_coords (imported_objects scenario_self) \<noteq> []"
    by (simp add: scenario_coords)
  have h2: "gather_all_coords (imported_objects other_self) \<noteq> []"
    by (simp add: other_coords)
  have h3: "min_max_coords (gather_all_coords (imported_objects scenario_self))
     = min_max_coords (gather_all_coords (imported_objects other_self))"
    by (simp add: scenario_coords scenario_bounds other_coords other_bounds)
  have h4: "reference_plane scenario_self = Some scenario_plane"
    by (simp add: scenario_self_def)
  have diff: "gather_all_coords (imported_objects scenario_self)
     \<noteq> gather_all_coords (imported_objects other_self)"
    by (simp add: scenario_coords other_coords)
  have diff_plane: "reference_plane scenario_self \<noteq> reference_plane other_self"
    by (simp add: h4 other_plane scenario_plane_def)
  have vals: "vy (location scenario_plane) = 3"
    "scale scenario_plane = \<lparr>vx = 1, vy = 1, vz = 1\<rparr>"
    by (simp_all add: scenario_plane_def)
  from placement_depends_on_box_only [OF h1 h2 h3 h4 other_plane, of scenario_plane
      stub_to_track_euler None scenario_plane None]
  have "(\<exists>q1 q2.
       reference_plane (position_reference_plane_Smart scenario_self) = Some q1 \<and>
       reference_plane (position_reference_plane_Smart other_self) = Some q2 \<and>
       vx (location q1) = vx (location q2) \<and> vz (location q1) = vz (location q2) \<and>
       scale q1 = scale q2 \<and>
       vy (location q1) = 3 \<and> vy (location q2) = - 2)"
    and "(\<exists>q1 q2.
       map_sum id reference_plane (position_reference_plane_Ubuntu scenario_self)
         = Inr (Some q1) \<and>
       map_sum id reference_plane (position_reference_plane_Ubuntu other_self)
         = Inr (Some q2) \<and>
       vx (location q1) = vx (location q2) \<and> vz (location q1) = vz (location q2) \<and>
       vy (location q1) = 3 \<and> vy (location q2) = - 2 \<and>
       scale q1 = \<lparr>vx = 1, vy = 1, vz = 1\<rparr> \<and> scale q2 = \<lparr>vx = 2, vy = 2, vz = 2\<rparr>)"
    by (simp_all add: vals)
  with h1 h2 h3 diff diff_plane show ?thesis by blast
qed

text \<open>
  The claim as stated says that the whole plane position and the plane scale are the same
  for the same box, with no dependence on other state. The scenario and the other scene
  have the same bounds, \<open>(0,0,0)\<close> and \<open>(2,0,4)\<close>, and planes that start at
  \<open>(0,3,0)\<close> with scale \<open>(1,1,1)\<close> and at \<open>(-1,-2,-3)\<close> with scale \<open>(2,2,2)\<close>. The
  Smart script leaves the planes at \<open>(7,3,2)\<close> and \<open>(7,-2,2)\<close>; the Ubuntu script leaves
  them at \<open>(3,3,2)\<close> with scale \<open>(1,1,1)\<close> and at \<open>(3,-2,2)\<close> with scale \<open>(2,2,2)\<close>.
\<close>

theorem placement_prior_state_counterexample:
  "min_max_coords (gather_all_coords (imported_objects scenario_self))
     = Inr (\<lparr>vx = 0, vy = 0, vz = 0\<rparr>, \<lparr>vx = 2, vy = 0, vz = 4\<rparr>) \<and>
   min_max_coords (gather_all_coords (imported_objects other_self))
     = Inr (\<lparr>vx = 0, vy = 0, vz = 0\<rparr>, \<lparr>vx = 2, vy = 0, vz = 4\<rparr>) \<and>
   position_reference_plane_Smart scenario_self =
     scenario_self\<lparr>reference_plane := Some (scenario_plane\<lparr>
        location := \<lparr>vx = 7, vy = 3, vz = 2\<rparr>,
        scale := \<lparr>vx = 3.2, vy = 3.2, vz = 1\<rparr>\<rparr>)\<rparr> \<and>
   position_reference_plane_Smart other_self =
     other_self\<lparr>reference_plane :=
        Some \<lparr>location = \<lparr>vx = 7, vy = - 2, vz = 2\<rparr>,
              rotation_euler = \<lparr>vx = 0, vy = 0, vz = 1\<rparr>,
              scale = \<lparr>vx = 3.2, vy = 3.2, vz = 1\<rparr>\<rparr>\<rparr> \<and>
   \<lparr>vx = 7, vy = 3, vz = 2\<rparr> \<noteq> \<lparr>vx = 7, vy = - 2, vz = (2::real)\<rparr> \<and>
   position_reference_plane_Ubuntu scenario_self =
     Inr (scenario_self\<lparr>reference_plane := Some (scenario_plane\<lparr>
        location := \<lparr>vx = 3, vy = 3, vz = 2\<rparr>\<rparr>)\<rparr>) \<and>
   scale scenario_plane = \<lparr>vx = 1, vy = 1, vz = 1\<rparr> \<and>
   position_reference_plane_Ubuntu other_self =
     Inr (other_self\<lparr>reference_plane :=
        Some \<lparr>location = \<lparr>vx = 3, vy = - 2, vz = 2\<rparr>,
              rotation_euler = \<lparr>vx = 0, vy = 0, vz = 1\<rparr>,
              scale = \<lparr>vx = 2, vy = 2, vz = 2\<rparr>\<rparr>\<rparr>) \<and>
   \<lparr>vx = 3, vy = 3, vz = 2\<rparr> \<noteq> \<lparr>vx = 3, vy = - 2, vz = (2::real)\<rparr> \<and>
   \<lparr>vx = 1, vy = 1, vz = 1\<rparr> \<noteq> \<lparr>vx = 2, vy = 2, vz = (2::real)\<rparr>"
  by (simp add: scenario_coords scenario_bounds other_coords other_bounds
      scenario_Smart scenario_Ubuntu other_Smart other_Ubuntu scenario_plane_def)

subsection \<open>C9: what positioning the plane changes\<close>

text \<open>
  C9. Positioning the reference plane changes nothing but the X and Z components of its
  location and its scale: the Y component of the location, every other attribute of the
  plane and every other attribute of \<open>self\<close> are as before. The Ubuntu script leaves the
  scale as well.
\<close>

theorem plane_frame:
  assumes "reference_plane self = Some plane"
  shows "(\<exists>x z s. position_reference_plane_Smart self =
            self\<lparr>reference_plane := Some (plane\<lparr>
              location := \<lparr>vx = x, vy = vy (location plane), vz = z\<rparr>, scale := s\<rparr>)\<rparr>) \<and>
         (\<exists>x z. position_reference_plane_Ubuntu self =
            Inr (self\<lparr>reference_plane := Some (plane\<lparr>
              location := \<lparr>vx = x, vy = vy (location plane), vz = z\<rparr>\<rparr>)\<rparr>))"
proof (cases "gather_all_coords (imported_objects self) = []")
  case True
  have same: "self\<lparr>reference_plane := Some (plane\<lparr>
       location := \<lparr>vx = vx (location plane), vy = vy (location plane),
                    vz = vz (location plane)\<rparr>\<rparr>)\<rparr> = self"
    using assms by simp
  have same_scale: "self\<lparr>reference_plane := Some (plane\<lparr>
       location := \<lparr>vx = vx (location plane), vy = vy (location plane),
                    vz = vz (location plane)\<rparr>, scale := scale plane\<rparr>)\<rparr> = self"
    using assms by simp
  have "\<exists>x z s. position_reference_plane_Smart self =
            self\<lparr>reference_plane := Some (plane\<lparr>
              location := \<lparr>vx = x, vy = vy (location plane), vz = z\<rparr>, scale := s\<rparr>)\<rparr>"
    using Smart_skipped [OF True] same_scale by metis
  moreover have "\<exists>x z. position_reference_plane_Ubuntu self =
            Inr (self\<lparr>reference_plane := Some (plane\<lparr>
              location := \<lparr>vx = x, vy = vy (location plane), vz = z\<rparr>\<rparr>)\<rparr>)"
    using Ubuntu_skipped [OF True] same by metis
  ultimately show ?thesis by blast
next
  case False
  then obtain mn mx
    where box: "min_max_coords (gather_all_coords (imported_objects self)) = Inr (mn, mx)"
    using min_max_coords_total by blast
  show ?thesis
    using Smart_placed [OF assms False box] Ubuntu_placed [OF assms False box]
    by blast
qed

theorem plane_frame_witness:
  "reference_plane scenario_self = Some scenario_plane \<and>
   vy (location scenario_plane) = 3 \<and>
   position_reference_plane_Smart scenario_self =
     scenario_self\<lparr>reference_plane := Some (scenario_plane\<lparr>
        location := \<lparr>vx = 7, vy = 3, vz = 2\<rparr>,
        scale := \<lparr>vx = 3.2, vy = 3.2, vz = 1\<rparr>\<rparr>)\<rparr> \<and>
   (\<exists>x z. position_reference_plane_Ubuntu scenario_self =
      Inr (scenario_self\<lparr>reference_plane := Some (scenario_plane\<lparr>
         location := \<lparr>vx = x, vy = 3, vz = z\<rparr>\<rparr>)\<rparr>))"
proof -
  have plane: "reference_plane scenario_self = Some scenario_plane"
    by (simp add: scenario_self_def)
  have y: "vy (location scenario_plane) = 3"
    by (simp add: scenario_plane_def)
  from plane_frame [OF plane] show ?thesis
    using plane by (simp add: y scenario_Smart)
qed

subsection \<open>C10: only meshes contribute\<close>

text \<open>
  C10. The gathered points are the transformed vertices of the objects of type
  \<open>'MESH'\<close>, in order. When no object is a mesh the gathered list is empty and the three
  methods return normally with nothing changed, exactly as they do when
  \<open>self.imported_objects\<close> is empty.
\<close>

theorem only_mesh_vertices_contribute:
  "gather_all_coords objs =
     concat (map (\<lambda>obj. map (matrix_world obj) (vertices obj))
                 (filter (\<lambda>obj. obj_type obj = ''MESH'') objs)) \<and>
   ((\<forall>obj \<in> set (imported_objects self). obj_type obj \<noteq> ''MESH'') \<longrightarrow>
      gather_all_coords (imported_objects self) = [] \<and>
      position_reference_plane_Smart self = self \<and>
      position_reference_plane_Ubuntu self = Inr self \<and>
      render_smart_preview_camera camera_add to_track_euler self camera = Inr camera) \<and>
   position_reference_plane_Smart (self\<lparr>imported_objects := []\<rparr>)
     = self\<lparr>imported_objects := []\<rparr> \<and>
   position_reference_plane_Ubuntu (self\<lparr>imported_objects := []\<rparr>)
     = Inr (self\<lparr>imported_objects := []\<rparr>) \<and>
   render_smart_preview_camera camera_add to_track_euler (self\<lparr>imported_objects := []\<rparr>) camera
     = Inr camera"
proof -
  have none: "gather_all_coords (imported_objects self) = []"
    if "\<forall>obj \<in> set (imported_objects self). obj_type obj \<noteq> ''MESH''"
    using that by (simp add: gather_filter)
  have empty: "gather_all_coords (imported_objects (self\<lparr>imported_objects := []\<rparr>)) = []"
    by simp
  show ?thesis
    using gather_filter [of objs] none
      Smart_skipped [OF empty] Ubuntu_skipped [OF empty]
      camera_skipped [OF empty, of camera_add to_track_euler camera]
    by (auto simp: Smart_skipped Ubuntu_skipped camera_skipped)
qed

theorem only_mesh_vertices_contribute_witness:
  "map obj_type (imported_objects non_mesh_self) = [''LIGHT'', ''EMPTY''] \<and>
   gather_all_coords (imported_objects non_mesh_self) = [] \<and>
   position_reference_plane_Smart non_mesh_self = non_mesh_self \<and>
   position_reference_plane_Ubuntu non_mesh_self = Inr non_mesh_self \<and>
   render_smart_preview_camera scenario_plane stub_to_track_euler non_mesh_self None = Inr None"
proof -
  have types: "map obj_type (imported_objects non_mesh_self) = [''LIGHT'', ''EMPTY'']"
    by (simp add: non_mesh_self_def)
  have h: "\<forall>obj \<in> set (imported_objects non_mesh_self). obj_type obj \<noteq> ''MESH''"
    by (simp add: non_mesh_self_def)
  from only_mesh_vertices_contribute
    [of "imported_objects non_mesh_self" non_mesh_self scenario_plane stub_to_track_euler None]
  show ?thesis
    using h types by blast
qed

end
